theory Spec2Isabelle
  imports Main "HOL-Library.Word"
begin

unbundle bit_operations_syntax

section \<open>The cycle-counter reader of GeosCore/rdtsc.c\<close>

text \<open>
  The file holds one C function:
  \<^verbatim>\<open>
  inline uint64_t rdtsc()
  {
      uint32_t lo, hi;
      __asm__ __volatile__(
          "rdtsc"              // Execute RDTSC instruction
          : "=a"(lo), "=d"(hi) // Output: EAX -> lo, EDX -> hi
      );
      return ((uint64_t)hi << 32) | lo; // Combine high and low 32 bits into 64 bits
  }
  \<close>
  Its body is three statements: the declaration of two locals without initialiser, an
  asm statement whose only operands are the two outputs, and a return of an expression
  over the two locals. Each statement is a definition below, and \<open>rdtsc\<close> is their
  sequence.
\<close>

subsection \<open>Data\<close>

type_synonym uint32_t = "32 word"
type_synonym uint64_t = "64 word"

text \<open>
  What one execution of the instruction hands to the asm statement: the contents of EAX
  and of EDX, in this order, or a trap on a processor that does not provide the
  instruction to the running code. The instruction is the environment of the function,
  so its outcome is a parameter of the model.
\<close>

datatype insn_result = Delivered uint32_t uint32_t | Trap

text \<open>
  The ways in which an execution of the body could fail to return a value: the
  instruction traps, or the return expression reads a local that no statement has
  written (the declaration gives \<open>lo\<close> and \<open>hi\<close> no value).
\<close>

datatype fault = Insn_Trap | Uninit_Read

text \<open>
  The state during a call: the two locals, each \<open>None\<close> until written, and \<open>globals\<close>,
  which stands for everything outside the call's own frame that the program can
  observe (memory, file-scope objects, the environment). Its type is left open.
\<close>

record 'g frame =
  lo :: "uint32_t option"
  hi :: "uint32_t option"
  globals :: 'g

subsection \<open>The statements of the body\<close>

text \<open>Line 5, \<^verbatim>\<open>uint32_t lo, hi;\<close>: both locals exist and hold no value yet.\<close>

definition declare_lo_hi :: "'g \<Rightarrow> 'g frame" where
  "declare_lo_hi g = \<lparr>lo = None, hi = None, globals = g\<rparr>"

text \<open>
  Lines 6 to 9, the asm statement. Its operand list has two outputs, \<^verbatim>\<open>"=a"(lo)\<close> and
  \<^verbatim>\<open>"=d"(hi)\<close>, no input and no clobber: EAX is stored to \<open>lo\<close>, EDX to \<open>hi\<close>, and nothing
  else of the frame is written.
\<close>

definition asm_rdtsc :: "insn_result \<Rightarrow> 'g frame \<Rightarrow> fault + 'g frame" where
  "asm_rdtsc r f =
     (case r of
        Trap \<Rightarrow> Inl Insn_Trap
      | Delivered a d \<Rightarrow> Inr (f\<lparr>lo := Some a, hi := Some d\<rparr>))"

text \<open>
  The expression of line 10, \<^verbatim>\<open>((uint64_t)hi << 32) | lo\<close>: the cast zero-extends \<open>hi\<close>
  to 64 bits before the shift, and the usual arithmetic conversions zero-extend the
  unsigned \<open>lo\<close> to 64 bits before the bitwise or.
\<close>

definition combine :: "uint32_t \<Rightarrow> uint32_t \<Rightarrow> uint64_t" where
  "combine h l = push_bit 32 (ucast h :: uint64_t) OR (ucast l :: uint64_t)"

text \<open>Line 10, the return statement: it reads both locals.\<close>

definition return_stmt :: "'g frame \<Rightarrow> fault + (uint64_t \<times> 'g)" where
  "return_stmt f =
     (case hi f of
        None \<Rightarrow> Inl Uninit_Read
      | Some h \<Rightarrow>
          (case lo f of
             None \<Rightarrow> Inl Uninit_Read
           | Some l \<Rightarrow> Inr (combine h l, globals f)))"

subsection \<open>The function\<close>

text \<open>
  \<open>rdtsc r g\<close> is a call in which the instruction's outcome is \<open>r\<close> and the program
  state at the call is \<open>g\<close>: the returned value with the state after the call, or the
  fault.
\<close>

definition rdtsc :: "insn_result \<Rightarrow> 'g \<Rightarrow> fault + (uint64_t \<times> 'g)" where
  "rdtsc r g =
     (case asm_rdtsc r (declare_lo_hi g) of
        Inl e \<Rightarrow> Inl e
      | Inr f \<Rightarrow> return_stmt f)"

subsection \<open>Callers and the platform\<close>

text \<open>
  A caller that issues one call after the other, one per instruction outcome in the
  list, each call starting in the state the previous one left. It returns the values
  in call order and stops at the first fault.
\<close>

fun rdtsc_calls :: "insn_result list \<Rightarrow> 'g \<Rightarrow> fault + (uint64_t list \<times> 'g)" where
  "rdtsc_calls [] g = Inr ([], g)"
| "rdtsc_calls (r # rs) g =
     (case rdtsc r g of
        Inl e \<Rightarrow> Inl e
      | Inr (v, g') \<Rightarrow>
          (case rdtsc_calls rs g' of
             Inl e \<Rightarrow> Inl e
           | Inr (vs, g'') \<Rightarrow> Inr (v # vs, g'')))"

text \<open>
  Modelled from the spec: the processor's instruction itself, which is hardware and not
  part of the source. On a processor that provides it, the instruction captures the
  64-bit cycle counter and exposes it split across two 32-bit outputs, the low half in
  EAX and the high half in EDX. \<open>insn_at c\<close> is its outcome when the counter holds \<open>c\<close>.
\<close>

definition insn_at :: "uint64_t \<Rightarrow> insn_result" where
  "insn_at c = Delivered (ucast c) (ucast (drop_bit 32 c))"

text \<open>The value of a call without the state, to compare calls made in different states.\<close>

definition returned :: "fault + (uint64_t \<times> 'g) \<Rightarrow> fault + uint64_t" where
  "returned x = (case x of Inl e \<Rightarrow> Inl e | Inr (v, g) \<Rightarrow> Inr v)"

section \<open>Facts about the combining expression\<close>

lemma bit_combine:
  "bit (combine h l) n \<longleftrightarrow> (if n < 32 then bit l n else bit h (n - 32))"
  by (auto simp: combine_def bit_simps dest: bit_imp_le_length)

lemma hi_of_combine: "ucast (drop_bit 32 (combine h l)) = h"
  by (rule bit_word_eqI) (simp add: bit_simps bit_combine)

lemma lo_of_combine: "ucast (combine h l) = l"
  by (rule bit_word_eqI) (simp add: bit_simps bit_combine)

lemma drop_bit_combine: "drop_bit 32 (combine h l) = ucast h"
  by (rule bit_word_eqI) (auto simp add: bit_simps bit_combine dest: bit_imp_le_length)

lemma take_bit_combine: "take_bit 32 (combine h l) = ucast l"
  by (rule bit_word_eqI) (auto simp add: bit_simps bit_combine dest: bit_imp_le_length)

lemma combine_halves: "combine (ucast (drop_bit 32 c)) (ucast c) = c"
  by (rule bit_word_eqI) (auto simp add: bit_simps bit_combine)

lemma combine_inj: "combine h l = combine h' l' \<longleftrightarrow> h = h' \<and> l = l'"
  by (metis hi_of_combine lo_of_combine)

text \<open>The same facts read as numbers.\<close>

lemma unat_ucast_up: "unat (ucast (h :: uint32_t) :: uint64_t) = unat h"
  using unsigned_less [of h, where 'a = nat]
  by (simp add: unsigned_ucast_eq take_bit_nat_eq_self_iff)

lemma unat_ucast_down: "unat (ucast (c :: uint64_t) :: uint32_t) = unat c mod 2 ^ 32"
  by (simp add: unsigned_ucast_eq take_bit_eq_mod)

lemma unat_drop_bit_32: "unat (drop_bit 32 (c :: uint64_t)) = unat c div 2 ^ 32"
  using unat_drop_bit_eq [of 32 c] by (simp only: drop_bit_eq_div [where 'a = nat])

lemma unat_halves:
  "unat (c :: uint64_t) = unat (drop_bit 32 c) * 2 ^ 32 + unat (ucast c :: uint32_t)"
  by (simp add: unat_ucast_down unat_drop_bit_32)

lemma unat_combine: "unat (combine h l) = unat h * 2 ^ 32 + unat l"
  using unat_halves [of "combine h l"]
  by (simp add: drop_bit_combine lo_of_combine unat_ucast_up)

lemma unat_combine_div: "unat (combine h l) div 2 ^ 32 = unat h"
  using unsigned_less [of l, where 'a = nat] by (simp add: unat_combine)

lemma unat_combine_mod: "unat (combine h l) mod 2 ^ 32 = unat l"
  using unsigned_less [of l, where 'a = nat] by (simp add: unat_combine)

section \<open>Facts about a call\<close>

lemma rdtsc_Delivered: "rdtsc (Delivered l h) g = Inr (combine h l, g)"
  by (simp add: rdtsc_def asm_rdtsc_def declare_lo_hi_def return_stmt_def)

lemma rdtsc_Trap: "rdtsc Trap g = Inl Insn_Trap"
  by (simp add: rdtsc_def asm_rdtsc_def)

lemma rdtsc_insn_at: "rdtsc (insn_at c) g = Inr (c, g)"
  by (simp add: insn_at_def rdtsc_Delivered combine_halves)

lemma returned_Delivered: "returned (rdtsc (Delivered l h) g) = Inr (combine h l)"
  by (simp add: returned_def rdtsc_Delivered)

lemma rdtsc_calls_Delivered:
  "rdtsc_calls (map (\<lambda>(l, h). Delivered l h) ps) g = Inr (map (\<lambda>(l, h). combine h l) ps, g)"
  by (induction ps) (auto simp: rdtsc_Delivered)

section \<open>The claims\<close>

text \<open>
  C1. Whatever pair the instruction delivers, low half \<open>L\<close> in EAX and high half \<open>H\<close> in
  EDX, the call returns \<open>(H << 32) | L\<close>: \<open>H\<close> fills bits 32 to 63 and \<open>L\<close> bits 0 to 31, so
  the value is \<open>H * 2^32 + L\<close>. The four boundary pairs give \<open>0\<close>, \<open>0xFFFFFFFF\<close>,
  \<open>0x100000000\<close> and \<open>0xFFFFFFFFFFFFFFFF\<close>.
\<close>

theorem rdtsc_concat:
  "rdtsc (Delivered L H) g = Inr (push_bit 32 (ucast H) OR ucast L, g)
   \<and> (\<exists>v. rdtsc (Delivered L H) g = Inr (v, g)
          \<and> unat v = unat H * 2 ^ 32 + unat L
          \<and> (\<forall>n. bit v n = (if n < 32 then bit L n else bit H (n - 32))))
   \<and> rdtsc (Delivered 0 0) g = Inr (0, g)
   \<and> rdtsc (Delivered 0xFFFFFFFF 0) g = Inr (0xFFFFFFFF, g)
   \<and> rdtsc (Delivered 0 1) g = Inr (0x100000000, g)
   \<and> rdtsc (Delivered 0xFFFFFFFF 0xFFFFFFFF) g = Inr (0xFFFFFFFFFFFFFFFF, g)"
proof -
  have general: "rdtsc (Delivered L H) g = Inr (push_bit 32 (ucast H) OR ucast L, g)"
    by (simp add: rdtsc_Delivered combine_def)
  have layout: "\<exists>v. rdtsc (Delivered L H) g = Inr (v, g)
          \<and> unat v = unat H * 2 ^ 32 + unat L
          \<and> (\<forall>n. bit v n = (if n < 32 then bit L n else bit H (n - 32)))"
    using unat_combine [of H L] bit_combine [of H L] by (simp add: rdtsc_Delivered)
  have b1: "rdtsc (Delivered 0 0) g = Inr (0, g)"
    by (simp add: rdtsc_Delivered combine_def)
  have b2: "rdtsc (Delivered 0xFFFFFFFF 0) g = Inr (0xFFFFFFFF, g)"
    by (simp add: rdtsc_Delivered combine_def)
  have b3: "rdtsc (Delivered 0 1) g = Inr (0x100000000, g)"
    by (simp add: rdtsc_Delivered combine_def)
  have b4: "rdtsc (Delivered 0xFFFFFFFF 0xFFFFFFFF) g = Inr (0xFFFFFFFFFFFFFFFF, g)"
    by (simp add: rdtsc_Delivered combine_def)
  from general layout b1 b2 b3 b4 show ?thesis by blast
qed

text \<open>
  C2. The call takes nothing from the program: for a given outcome of the instruction
  the returned value is the same in every program state, and it is one unsigned 64-bit
  integer, between \<open>0\<close> and \<open>2^64 - 1\<close>.
\<close>

theorem rdtsc_signature:
  "\<exists>v. (\<forall>g :: 'g. rdtsc (Delivered l h) g = Inr (v, g)) \<and> 0 \<le> uint v \<and> uint v < 2 ^ 64"
proof (intro exI conjI allI)
  show "rdtsc (Delivered l h) g = Inr (combine h l, g)" for g :: 'g
    by (rule rdtsc_Delivered)
  show "0 \<le> uint (combine h l)" by simp
  show "uint (combine h l) < 2 ^ 64"
    using uint_lt2p [of "combine h l"] by simp
qed

text \<open>
  C3. On a processor that provides the instruction (its outcome is not a trap) the call
  has no failure path: it returns a value, and it yields no fault of any kind. In
  particular the return statement never reads a local that was not written.
\<close>

theorem rdtsc_no_failure:
  "r \<noteq> Trap \<Longrightarrow> (\<exists>v. rdtsc r g = Inr (v, g)) \<and> (\<forall>e. rdtsc r g \<noteq> Inl e)"
  by (cases r) (simp_all add: rdtsc_Delivered)

theorem rdtsc_no_failure_witness:
  "Delivered 5 7 \<noteq> Trap
   \<and> (\<exists>v. rdtsc (Delivered 5 7) (0::nat) = Inr (v, 0))
   \<and> (\<forall>e. rdtsc (Delivered 5 7) (0::nat) \<noteq> Inl e)"
  using rdtsc_no_failure [of "Delivered 5 7" "0::nat"] by simp

text \<open>
  C4. A call leaves the program state as it found it, and so does every sequence of
  calls: the state after the last call is the state before the first, and the only
  thing produced is the list of returned values.
\<close>

theorem rdtsc_frame:
  "rdtsc (Delivered l h) g = Inr (combine h l, g)
   \<and> rdtsc_calls (map (\<lambda>(l, h). Delivered l h) ps) g = Inr (map (\<lambda>(l, h). combine h l) ps, g)"
  by (simp add: rdtsc_Delivered rdtsc_calls_Delivered)

text \<open>
  C5. Two consecutive calls on one core: when the counter at the second read is not
  below the counter at the first (no reset, no wrap-around in between), the second
  returned value is not below the first.
\<close>

theorem rdtsc_monotone:
  "c1 \<le> c2 \<Longrightarrow>
   \<exists>a b. rdtsc (insn_at c1) g = Inr (a, g) \<and> rdtsc (insn_at c2) g = Inr (b, g) \<and> a \<le> b"
  by (simp add: rdtsc_insn_at)

theorem rdtsc_monotone_witness:
  "(0xFFFFFFFF :: uint64_t) \<le> 0x100000000
   \<and> (\<exists>a b. rdtsc (insn_at 0xFFFFFFFF) (0::nat) = Inr (a, 0)
           \<and> rdtsc (insn_at 0x100000000) (0::nat) = Inr (b, 0) \<and> a \<le> b)"
proof -
  have le: "(0xFFFFFFFF :: uint64_t) \<le> 0x100000000" by simp
  from rdtsc_monotone [OF le, of "0::nat"] le show ?thesis by blast
qed

text \<open>
  C7. Two calls separated by work, during which the program state may change from \<open>g\<close>
  to \<open>g'\<close>: when the counter has moved between the two reads, the two returned values
  differ.
\<close>

theorem rdtsc_advances:
  "c1 \<noteq> c2 \<Longrightarrow>
   \<exists>a b. rdtsc (insn_at c1) g = Inr (a, g) \<and> rdtsc (insn_at c2) g' = Inr (b, g') \<and> a \<noteq> b"
  by (simp add: rdtsc_insn_at)

theorem rdtsc_advances_witness:
  "(1000 :: uint64_t) \<noteq> 1000 + 250
   \<and> (\<exists>a b. rdtsc (insn_at 1000) (0::nat) = Inr (a, 0)
           \<and> rdtsc (insn_at (1000 + 250)) (250::nat) = Inr (b, 250) \<and> a \<noteq> b)"
proof -
  have ne: "(1000 :: uint64_t) \<noteq> 1000 + 250" by simp
  from rdtsc_advances [OF ne, of "0::nat" "250::nat"] ne show ?thesis by blast
qed

text \<open>
  C9. The combination loses nothing. For the returned value \<open>r\<close> of a call that was
  handed \<open>hi\<close> and \<open>lo\<close>: \<open>r >> 32\<close> is \<open>hi\<close>, \<open>r mod 2^32\<close> is \<open>lo\<close> (as words and as
  numbers), and the map from pairs of halves to 64-bit values is a bijection.
\<close>

theorem rdtsc_roundtrip:
  "rdtsc (Delivered l h) g = Inr (combine h l, g)
   \<and> drop_bit 32 (combine h l) = ucast h
   \<and> ucast (drop_bit 32 (combine h l)) = h
   \<and> take_bit 32 (combine h l) = ucast l
   \<and> ucast (combine h l) = l
   \<and> unat (combine h l) div 2 ^ 32 = unat h
   \<and> unat (combine h l) mod 2 ^ 32 = unat l
   \<and> bij (\<lambda>(h, l). combine h l)"
proof -
  have "inj (\<lambda>(h, l). combine h l)"
    by (auto simp: inj_on_def combine_inj)
  moreover have "surj (\<lambda>(h, l). combine h l)"
  proof (rule surjI)
    fix c
    show "(\<lambda>(h, l). combine h l) (ucast (drop_bit 32 c), ucast c) = c"
      by (simp add: combine_halves)
  qed
  ultimately have "bij (\<lambda>(h, l). combine h l)"
    by (simp add: bij_def)
  with rdtsc_Delivered [of l h g] drop_bit_combine [of h l] hi_of_combine [of h l]
    take_bit_combine [of h l] lo_of_combine [of h l]
    unat_combine_div [of h l] unat_combine_mod [of h l]
  show ?thesis
    by (intro conjI)
qed

text \<open>
  C10. The returned value is a function of the delivered pair alone: two executions, in
  any two program states, return the same value exactly when the instruction delivered
  the same two halves.
\<close>

theorem rdtsc_deterministic:
  "returned (rdtsc (Delivered l h) g1) = returned (rdtsc (Delivered l' h') g2)
   \<longleftrightarrow> l = l' \<and> h = h'"
  by (auto simp: returned_Delivered combine_inj)

end
